theory Spec2Isabelle
  imports Complex_Main
begin

section \<open>JavaScript values used by buzzer-video.js\<close>

text \<open>
  A JavaScript number is modelled by its special values and, for a finite value, by the
  rational it denotes. The code only divides a position by a duration, multiplies by
  constants, subtracts, rounds up and compares; these are exact here, so the model leaves
  out the rounding of binary floating point and the sign of zero (\<open>-0\<close> is \<open>Fin 0\<close>).
\<close>

datatype jsnum = NaN | PInf | NInf | Fin rat

fun js_neg :: "jsnum \<Rightarrow> jsnum" where
  "js_neg NaN = NaN"
| "js_neg PInf = NInf"
| "js_neg NInf = PInf"
| "js_neg (Fin x) = Fin (- x)"

fun js_add :: "jsnum \<Rightarrow> jsnum \<Rightarrow> jsnum" where
  "js_add NaN _ = NaN"
| "js_add _ NaN = NaN"
| "js_add (Fin x) (Fin y) = Fin (x + y)"
| "js_add PInf NInf = NaN"
| "js_add NInf PInf = NaN"
| "js_add PInf _ = PInf"
| "js_add NInf _ = NInf"
| "js_add _ PInf = PInf"
| "js_add _ NInf = NInf"

definition js_sub :: "jsnum \<Rightarrow> jsnum \<Rightarrow> jsnum" where
  "js_sub a b = js_add a (js_neg b)"

text \<open>The sign of a non-NaN number: \<open>-1\<close>, \<open>0\<close> or \<open>1\<close>.\<close>

fun js_sign :: "jsnum \<Rightarrow> int" where
  "js_sign NaN = 0"
| "js_sign PInf = 1"
| "js_sign NInf = - 1"
| "js_sign (Fin x) = (if x < 0 then - 1 else if x = 0 then 0 else 1)"

definition inf_of_sign :: "int \<Rightarrow> jsnum" where
  "inf_of_sign s = (if s = 0 then NaN else if s < 0 then NInf else PInf)"

fun js_mul :: "jsnum \<Rightarrow> jsnum \<Rightarrow> jsnum" where
  "js_mul NaN _ = NaN"
| "js_mul _ NaN = NaN"
| "js_mul (Fin x) (Fin y) = Fin (x * y)"
| "js_mul a b = inf_of_sign (js_sign a * js_sign b)"

text \<open>
  Division: a finite non-zero number over zero is an infinity of the dividend's sign
  (the zero is \<open>+0\<close>), zero over zero is NaN, a finite number over an infinity is zero.
\<close>

fun js_div :: "jsnum \<Rightarrow> jsnum \<Rightarrow> jsnum" where
  "js_div NaN _ = NaN"
| "js_div _ NaN = NaN"
| "js_div (Fin x) (Fin y) = (if y = 0 then inf_of_sign (js_sign (Fin x)) else Fin (x / y))"
| "js_div (Fin x) _ = Fin 0"
| "js_div a (Fin y) = inf_of_sign (js_sign a * (if y < 0 then - 1 else 1))"
| "js_div _ _ = NaN"

fun js_ceil :: "jsnum \<Rightarrow> jsnum" where
  "js_ceil (Fin x) = Fin (of_int \<lceil>x\<rceil>)"
| "js_ceil a = a"

fun js_lt :: "jsnum \<Rightarrow> jsnum \<Rightarrow> bool" where
  "js_lt NaN _ = False"
| "js_lt _ NaN = False"
| "js_lt (Fin x) (Fin y) = (x < y)"
| "js_lt PInf _ = False"
| "js_lt _ NInf = False"
| "js_lt NInf _ = True"
| "js_lt _ PInf = True"

definition js_gt :: "jsnum \<Rightarrow> jsnum \<Rightarrow> bool" where
  "js_gt a b = js_lt b a"

text \<open>\<open>a >= b\<close> is false when either side is NaN and \<open>!(a < b)\<close> otherwise.\<close>

definition js_ge :: "jsnum \<Rightarrow> jsnum \<Rightarrow> bool" where
  "js_ge a b = (a \<noteq> NaN \<and> b \<noteq> NaN \<and> \<not> js_lt a b)"

text \<open>Truthiness: a number is falsy when it is zero or NaN, a string when it is empty.\<close>

fun num_truthy :: "jsnum \<Rightarrow> bool" where
  "num_truthy NaN = False"
| "num_truthy (Fin x) = (x \<noteq> 0)"
| "num_truthy _ = True"

definition str_truthy :: "string \<Rightarrow> bool" where
  "str_truthy s = (s \<noteq> [])"

text \<open>An optional string (\<open>None\<close> is \<open>undefined\<close> or \<open>null\<close>) is truthy when present and non-empty.\<close>

fun opt_truthy :: "string option \<Rightarrow> bool" where
  "opt_truthy None = False"
| "opt_truthy (Some s) = str_truthy s"

subsection \<open>Strings: trim, split and parseInt\<close>

text \<open>
  Strings are sequences of ASCII characters. The white space that \<open>trim\<close> and
  \<open>parseInt\<close> strip is tab, line feed, vertical tab, form feed, carriage return and
  space; the white-space code points beyond ASCII are outside the model.
\<close>

definition is_js_space :: "char \<Rightarrow> bool" where
  "is_js_space c = ((of_char c :: nat) \<in> {9, 10, 11, 12, 13, 32})"

definition trim :: "string \<Rightarrow> string" where
  "trim s = rev (dropWhile is_js_space (rev (dropWhile is_js_space s)))"

text \<open>\<open>s.split(c)\<close>: the pieces of \<open>s\<close> between the occurrences of \<open>c\<close>; never empty.\<close>

fun split :: "char \<Rightarrow> string \<Rightarrow> string list" where
  "split c [] = [[]]"
| "split c (x # xs) =
     (if x = c then [] # split c xs
      else (case split c xs of [] \<Rightarrow> [[x]] | y # ys \<Rightarrow> (x # y) # ys))"

text \<open>The value of a character as a digit of the given radix (at most 16), if it is one.\<close>

definition digit_of :: "nat \<Rightarrow> char \<Rightarrow> nat option" where
  "digit_of R c =
     (let n = (of_char c :: nat);
          d = (if 48 \<le> n \<and> n \<le> 57 then Some (n - 48)
               else if 97 \<le> n \<and> n \<le> 102 then Some (n - 87)
               else if 65 \<le> n \<and> n \<le> 70 then Some (n - 55)
               else None)
      in case d of None \<Rightarrow> None | Some v \<Rightarrow> if v < R then Some v else None)"

text \<open>The longest prefix of digits of the radix, as digit values.\<close>

fun radix_digits :: "nat \<Rightarrow> string \<Rightarrow> nat list" where
  "radix_digits R [] = []"
| "radix_digits R (c # cs) =
     (case digit_of R c of None \<Rightarrow> [] | Some d \<Rightarrow> d # radix_digits R cs)"

definition digits_value :: "nat \<Rightarrow> nat list \<Rightarrow> nat" where
  "digits_value R ds = foldl (\<lambda>a d. a * R + d) 0 ds"

text \<open>
  \<open>parseInt(s)\<close> with no radix argument: leading white space is skipped, then an
  optional sign, then an optional \<open>0x\<close>/\<open>0X\<close> (which selects radix 16, otherwise 10),
  then the longest run of digits; whatever follows is ignored. No digit at all is NaN.
\<close>

definition parseInt :: "string \<Rightarrow> jsnum" where
  "parseInt s =
     (let S = dropWhile is_js_space s;
          neg = (S \<noteq> [] \<and> hd S = CHR ''-'');
          S1 = (if S \<noteq> [] \<and> (hd S = CHR ''+'' \<or> hd S = CHR ''-'') then tl S else S);
          hex = (take 2 S1 = ''0x'' \<or> take 2 S1 = ''0X'');
          R = (if hex then 16 else 10);
          S2 = (if hex then drop 2 S1 else S1);
          Z = radix_digits R S2
      in if Z = [] then NaN
         else Fin (of_int ((if neg then - 1 else 1) * int (digits_value R Z))))"

section \<open>The VAST parser\<close>

text \<open>
  \<open>parseVast\<close> reads the fetched document through \<open>DOMParser\<close> and
  \<open>querySelector\<close>, which belong to the browser. The model starts from what those
  queries return: the first \<open>MediaFile\<close>, \<open>ClickThrough\<close>, \<open>Impression\<close>,
  \<open>ClickTracking\<close> and \<open>Linear\<close> elements (\<open>None\<close> when there is none) and all
  \<open>Tracking\<close> elements in document order. An attribute that is absent is \<open>None\<close>.
\<close>

record media_element =
  me_textContent :: string
  me_type :: "string option"
  me_width :: "string option"
  me_height :: "string option"

record tracking_element =
  te_event :: "string option"
  te_textContent :: string

record vast_doc =
  q_MediaFile :: "media_element option"
  q_ClickThrough :: "string option"
  q_Impression :: "string option"
  q_ClickTracking :: "string option"
  q_Linear_skipoffset :: "string option option"
  q_Tracking :: "tracking_element list"

text \<open>The object \<open>parseVast\<close> returns; \<open>None\<close> is \<open>undefined\<close>, for \<open>skipOffset\<close> it is \<open>null\<close>.\<close>

record vast_data =
  mediaFile :: "string option"
  mediaType :: "string option"
  width :: "string option"
  height :: "string option"
  clickThrough :: "string option"
  clickTracking :: "string option"
  impressionUrl :: "string option"
  skipOffset :: "jsnum option"
  trackingEvents :: "string \<rightharpoonup> string"

text \<open>
  \<open>parseSkipOffset\<close>: three colon-separated parts are hours, minutes and seconds,
  each read by \<open>parseInt\<close>; anything else is \<open>parseInt(offset) || 5\<close>.
\<close>

definition parseSkipOffset :: "string \<Rightarrow> jsnum" where
  "parseSkipOffset offset =
     (let parts = split (CHR '':'') offset
      in if length parts = 3
         then js_add (js_add (js_mul (parseInt (parts ! 0)) (Fin 3600))
                             (js_mul (parseInt (parts ! 1)) (Fin 60)))
                     (parseInt (parts ! 2))
         else (let n = parseInt offset in if num_truthy n then n else Fin 5))"

text \<open>
  \<open>trackingEvents[event] = t.textContent.trim()\<close> on a plain object. The key is the
  attribute converted to a string (a missing attribute, \<open>null\<close>, is the key
  \<open>"null"\<close>). Assigning a string to the key \<open>__proto__\<close> of a plain object is ignored
  by the language.
\<close>

definition tracking_key :: "string option \<Rightarrow> string" where
  "tracking_key a = (case a of None \<Rightarrow> ''null'' | Some e \<Rightarrow> e)"

definition set_tracking :: "tracking_element \<Rightarrow> (string \<rightharpoonup> string) \<Rightarrow> (string \<rightharpoonup> string)" where
  "set_tracking t m =
     (let event = tracking_key (te_event t)
      in if event = ''__proto__'' then m else m(event \<mapsto> trim (te_textContent t)))"

definition collect_tracking :: "tracking_element list \<Rightarrow> (string \<rightharpoonup> string)" where
  "collect_tracking ts = fold set_tracking ts Map.empty"

text \<open>
  \<open>doc.querySelector('Linear')?.getAttribute('skipoffset')\<close> is \<open>undefined\<close> without a
  \<open>Linear\<close> element and \<open>null\<close> without the attribute; both, and the empty string,
  are falsy and give \<open>null\<close>.
\<close>

definition linear_skipoffset :: "vast_doc \<Rightarrow> string option" where
  "linear_skipoffset doc = (case q_Linear_skipoffset doc of None \<Rightarrow> None | Some a \<Rightarrow> a)"

definition parseVast :: "vast_doc \<Rightarrow> vast_data" where
  "parseVast doc =
     \<lparr> mediaFile = map_option (trim \<circ> me_textContent) (q_MediaFile doc),
       mediaType = Option.bind (q_MediaFile doc) me_type,
       width = Option.bind (q_MediaFile doc) me_width,
       height = Option.bind (q_MediaFile doc) me_height,
       clickThrough = map_option trim (q_ClickThrough doc),
       clickTracking = map_option trim (q_ClickTracking doc),
       impressionUrl = map_option trim (q_Impression doc),
       skipOffset = (case linear_skipoffset doc of
                       None \<Rightarrow> None
                     | Some a \<Rightarrow> if str_truthy a then Some (parseSkipOffset a) else None),
       trackingEvents = collect_tracking (q_Tracking doc) \<rparr>"

section \<open>Effects, callbacks and errors\<close>

text \<open>
  A callback is a function value. The model names which function an option holds: one
  supplied by the caller of the library (named by the option it was passed as), or one of
  the two closures that \<open>BuzzerRewardedAd.show\<close> installs in its player.
\<close>

datatype slot = OnComplete | OnSkip | OnError | OnReward | OnClose

datatype callback = Caller slot | RewardedComplete | RewardedError

datatype js_error = TypeError | Error string

datatype jsval = VStr string | VNum jsnum | VErr js_error | VObj "(string \<times> jsval) list"

text \<open>
  What a call does to the world outside the object, in the order it happens.
  \<open>FireTracking e\<close> marks a call of \<open>fireTracking(e)\<close>; \<open>Pixel u\<close> is
  \<open>firePixel(u)\<close>, the request to \<open>u\<close>; \<open>Invoke f args\<close> is a call of the callback
  \<open>f\<close>.
\<close>

datatype effect =
    FireTracking string
  | Pixel string
  | WindowOpen string
  | Invoke callback "jsval list"
  | ConsoleError
  | VideoPlay
  | VideoPause
  | AppendOverlay
  | RemoveOverlay
  | AppendPopup
  | RemovePopup
  | ClearInterval

section \<open>BuzzerVideoPlayer\<close>

text \<open>
  The options object after the constructor's defaults. Every default is written before
  \<open>...options\<close>, so a key the caller passes always wins and the default applies to an
  absent key only. Field names carry the prefix \<open>opt_\<close>, since the descriptor
  has fields of the same names.
\<close>

record player_options =
  opt_vastUrl :: "string option"
  opt_width :: nat
  opt_height :: nat
  opt_autoplay :: bool
  opt_muted :: bool
  opt_onComplete :: "callback option"
  opt_onSkip :: "callback option"
  opt_onError :: "callback option"
  opt_onReward :: "callback option"
  opt_skipOffset :: "jsnum option"

text \<open>
  The \<open>options\<close> argument: \<open>None\<close> is a key the caller left out. For
  \<open>arg_skipOffset\<close>, \<open>Some None\<close> is the key passed with the value \<open>null\<close>.
\<close>

record player_args =
  arg_vastUrl :: "string option"
  arg_width :: "nat option"
  arg_height :: "nat option"
  arg_autoplay :: "bool option"
  arg_muted :: "bool option"
  arg_onComplete :: "callback option"
  arg_onSkip :: "callback option"
  arg_onError :: "callback option"
  arg_onReward :: "callback option"
  arg_skipOffset :: "jsnum option option"

datatype node = VideoNode | SkipButtonNode | AdLabelNode

record video_element =
  ve_src :: "string option"
  ve_width :: nat
  ve_height :: nat
  ve_muted :: bool

datatype skip_label = SkipIn jsnum | SkipAd

record skip_button =
  sb_textContent :: "skip_label option"
  sb_disabled :: bool
  sb_opacity :: string

text \<open>
  The player object. \<open>container\<close> is the list of children of the host element, which
  the player clears and fills; the element itself is taken to exist.
\<close>

record player =
  options :: player_options
  container :: "node list"
  videoElement :: "video_element option"
  skipButton :: "skip_button option"
  vastData :: "vast_data option"
  currentTime :: jsnum
  trackingFired :: "string set"

definition new_player :: "node list \<Rightarrow> player_args \<Rightarrow> player" where
  "new_player children args =
     \<lparr> options =
         \<lparr> opt_vastUrl = arg_vastUrl args,
           opt_width = (case arg_width args of None \<Rightarrow> 640 | Some w \<Rightarrow> w),
           opt_height = (case arg_height args of None \<Rightarrow> 360 | Some h \<Rightarrow> h),
           opt_autoplay = (case arg_autoplay args of None \<Rightarrow> False | Some b \<Rightarrow> b),
           opt_muted = (case arg_muted args of None \<Rightarrow> True | Some b \<Rightarrow> b),
           opt_onComplete = arg_onComplete args,
           opt_onSkip = arg_onSkip args,
           opt_onError = arg_onError args,
           opt_onReward = arg_onReward args,
           opt_skipOffset = (case arg_skipOffset args of None \<Rightarrow> Some (Fin 5) | Some v \<Rightarrow> v) \<rparr>,
       container = children,
       videoElement = None,
       skipButton = None,
       vastData = None,
       currentTime = Fin 0,
       trackingFired = {} \<rparr>"

definition invoke :: "callback option \<Rightarrow> jsval list \<Rightarrow> effect list" where
  "invoke cb args = (case cb of None \<Rightarrow> [] | Some f \<Rightarrow> [Invoke f args])"

definition firePixel :: "string \<Rightarrow> effect list" where
  "firePixel url = [Pixel url]"

text \<open>
  \<open>fireTracking\<close> reads \<open>this.vastData.trackingEvents\<close>; on a player that has not
  loaded, \<open>vastData\<close> is \<open>null\<close> and the read throws.
\<close>

definition fireTracking :: "player \<Rightarrow> string \<Rightarrow> js_error + effect list" where
  "fireTracking p event =
     (case vastData p of
        None \<Rightarrow> Inl TypeError
      | Some vd \<Rightarrow>
          Inr ([FireTracking event]
               @ (case trackingEvents vd event of
                    None \<Rightarrow> []
                  | Some url \<Rightarrow> if str_truthy url then firePixel url else [])
               @ (case clickTracking vd of
                    None \<Rightarrow> []
                  | Some url \<Rightarrow>
                      if event = ''click'' \<and> str_truthy url then firePixel url else [])))"

text \<open>\<open>null\<close> converts to the number 0 in \<open>this.vastData.skipOffset - this.currentTime\<close>.\<close>

definition to_number :: "jsnum option \<Rightarrow> jsnum" where
  "to_number v = (case v of None \<Rightarrow> Fin 0 | Some n \<Rightarrow> n)"

definition updateSkipButton :: "player \<Rightarrow> js_error + player" where
  "updateSkipButton p =
     (case skipButton p of
        None \<Rightarrow> Inr p
      | Some b \<Rightarrow>
          (case vastData p of
             None \<Rightarrow> Inl TypeError
           | Some vd \<Rightarrow>
               (let remaining = js_ceil (js_sub (to_number (skipOffset vd)) (currentTime p))
                in if js_gt remaining (Fin 0)
                   then Inr (p\<lparr>skipButton := Some (b\<lparr>sb_textContent := Some (SkipIn remaining),
                                                      sb_disabled := True,
                                                      sb_opacity := ''0.5''\<rparr>)\<rparr>)
                   else Inr (p\<lparr>skipButton := Some (b\<lparr>sb_textContent := Some SkipAd,
                                                      sb_disabled := False,
                                                      sb_opacity := ''1''\<rparr>)\<rparr>))))"

definition createSkipButton :: "player \<Rightarrow> js_error + player" where
  "createSkipButton p =
     (case updateSkipButton
             (p\<lparr>skipButton := Some \<lparr>sb_textContent = None, sb_disabled = False, sb_opacity = []\<rparr>\<rparr>) of
        Inl e \<Rightarrow> Inl e
      | Inr p1 \<Rightarrow> Inr (p1\<lparr>container := container p1 @ [SkipButtonNode]\<rparr>))"

definition render :: "player \<Rightarrow> js_error + (player \<times> effect list)" where
  "render p =
     (case vastData p of
        None \<Rightarrow> Inl TypeError
      | Some vd \<Rightarrow>
          (let p1 = p\<lparr>container := [VideoNode],
                      videoElement := Some \<lparr>ve_src = mediaFile vd,
                                            ve_width = opt_width (options p),
                                            ve_height = opt_height (options p),
                                            ve_muted = opt_muted (options p)\<rparr>\<rparr>
           in case (if skipOffset vd \<noteq> None then createSkipButton p1 else Inr p1) of
                Inl e \<Rightarrow> Inl e
              | Inr p2 \<Rightarrow>
                  Inr (p2\<lparr>container := container p2 @ [AdLabelNode]\<rparr>,
                       (case impressionUrl vd of
                          None \<Rightarrow> []
                        | Some url \<Rightarrow> if str_truthy url then firePixel url else [])
                       @ (if opt_autoplay (options p) then [VideoPlay] else []))))"

text \<open>
  \<open>load\<close> is asynchronous; the model takes the outcome of \<open>fetch\<close> and
  \<open>response.text()\<close> as an argument and runs the function to its end. Whatever is
  thrown inside \<open>try\<close> is logged and handed to \<open>onError\<close>.
\<close>

datatype fetched = Rejected js_error | Resolved vast_doc

definition load :: "player \<Rightarrow> fetched \<Rightarrow> player \<times> effect list" where
  "load p outcome =
     (if \<not> opt_truthy (opt_vastUrl (options p)) then (p, [ConsoleError])
      else case outcome of
        Rejected e \<Rightarrow> (p, ConsoleError # invoke (opt_onError (options p)) [VErr e])
      | Resolved doc \<Rightarrow>
          (let p1 = p\<lparr>vastData := Some (parseVast doc)\<rparr>
           in if \<not> opt_truthy (mediaFile (parseVast doc))
              then (p1, ConsoleError
                        # invoke (opt_onError (options p))
                            [VErr (Error ''No media file in VAST response'')])
              else case render p1 of
                Inl e \<Rightarrow> (p1, ConsoleError # invoke (opt_onError (options p)) [VErr e])
              | Inr r \<Rightarrow> r))"

definition onStart :: "player \<Rightarrow> js_error + (player \<times> effect list)" where
  "onStart p =
     (if ''start'' \<notin> trackingFired p
      then (case fireTracking p ''start'' of
              Inl e \<Rightarrow> Inl e
            | Inr fx \<Rightarrow> Inr (p\<lparr>trackingFired := insert ''start'' (trackingFired p)\<rparr>, fx))
      else Inr (p, []))"

text \<open>
  One of the three blocks of \<open>onTimeUpdate\<close>:
  \<open>if (percent >= threshold && !this.trackingFired[event]) { fire; mark }\<close>,
  run after the effects \<open>fx\<close> of the blocks before it.
\<close>

definition quartile :: "jsnum \<Rightarrow> rat \<Rightarrow> string \<Rightarrow> player \<times> effect list \<Rightarrow> js_error + (player \<times> effect list)" where
  "quartile percent threshold event st =
     (case st of (p, fx) \<Rightarrow>
        if js_ge percent (Fin threshold) \<and> event \<notin> trackingFired p
        then (case fireTracking p event of
                Inl e \<Rightarrow> Inl e
              | Inr fx' \<Rightarrow> Inr (p\<lparr>trackingFired := insert event (trackingFired p)\<rparr>, fx @ fx'))
        else Inr (p, fx))"

text \<open>
  \<open>onTimeUpdate\<close>; \<open>t\<close> and \<open>d\<close> are what the video element reports as
  \<open>currentTime\<close> and \<open>duration\<close> when the event arrives.
\<close>

definition onTimeUpdate :: "player \<Rightarrow> jsnum \<Rightarrow> jsnum \<Rightarrow> js_error + (player \<times> effect list)" where
  "onTimeUpdate p t d =
     (case videoElement p of
        None \<Rightarrow> Inl TypeError
      | Some v \<Rightarrow>
          (let percent = js_mul (js_div t d) (Fin 100)
           in case updateSkipButton (p\<lparr>currentTime := t\<rparr>) of
                Inl e \<Rightarrow> Inl e
              | Inr p1 \<Rightarrow>
                  (case quartile percent 25 ''firstQuartile'' (p1, []) of
                     Inl e \<Rightarrow> Inl e
                   | Inr st1 \<Rightarrow>
                       (case quartile percent 50 ''midpoint'' st1 of
                          Inl e \<Rightarrow> Inl e
                        | Inr st2 \<Rightarrow> quartile percent 75 ''thirdQuartile'' st2))))"

definition onComplete :: "player \<Rightarrow> js_error + (player \<times> effect list)" where
  "onComplete p =
     (case fireTracking p ''complete'' of
        Inl e \<Rightarrow> Inl e
      | Inr fx \<Rightarrow>
          Inr (p, fx @ invoke (opt_onComplete (options p)) []
                     @ invoke (opt_onReward (options p)) []))"

definition destroy :: "player \<Rightarrow> player \<times> effect list" where
  "destroy p =
     (p\<lparr>videoElement := map_option (\<lambda>v. v\<lparr>ve_src := Some []\<rparr>) (videoElement p),
        container := []\<rparr>,
      (if videoElement p \<noteq> None then [VideoPause] else []))"

definition skip :: "player \<Rightarrow> js_error + (player \<times> effect list)" where
  "skip p =
     (case fireTracking p ''skip'' of
        Inl e \<Rightarrow> Inl e
      | Inr fx \<Rightarrow>
          (case destroy p of (p1, dfx) \<Rightarrow>
             Inr (p1, fx @ invoke (opt_onSkip (options p)) [] @ dfx)))"

text \<open>The click listener that \<open>render\<close> puts on the video element.\<close>

definition videoClick :: "player \<Rightarrow> js_error + (player \<times> effect list)" where
  "videoClick p =
     (case vastData p of
        None \<Rightarrow> Inl TypeError
      | Some vd \<Rightarrow>
          (case clickThrough vd of
             None \<Rightarrow> Inr (p, [])
           | Some url \<Rightarrow>
               if str_truthy url
               then (case fireTracking p ''click'' of
                       Inl e \<Rightarrow> Inl e
                     | Inr fx \<Rightarrow> Inr (p, WindowOpen url # fx))
               else Inr (p, [])))"

text \<open>
  A user's click on the skip control: the browser delivers it to the listener, which
  calls \<open>skip()\<close>, only when the button is in the document and not disabled.
\<close>

definition skipButtonClick :: "player \<Rightarrow> js_error + (player \<times> effect list)" where
  "skipButtonClick p =
     (case skipButton p of
        None \<Rightarrow> Inr (p, [])
      | Some b \<Rightarrow>
          if sb_disabled b \<or> SkipButtonNode \<notin> set (container p) then Inr (p, [])
          else skip p)"

text \<open>
  What can reach a player: the media events and the click on the video, whose listeners
  \<open>render\<close> attaches to the video element it creates (so none arrives before that
  element exists, and a user's click needs the element in the container), the click on
  the skip control, and direct calls of the public methods \<open>skip\<close> and \<open>destroy\<close>.
\<close>

datatype signal =
    Play
  | TimeUpdate jsnum jsnum
  | Ended
  | VideoClick
  | SkipButtonClick
  | CallSkip
  | CallDestroy

fun step :: "player \<Rightarrow> signal \<Rightarrow> js_error + (player \<times> effect list)" where
  "step p Play = (if videoElement p = None then Inr (p, []) else onStart p)"
| "step p (TimeUpdate t d) = (if videoElement p = None then Inr (p, []) else onTimeUpdate p t d)"
| "step p Ended = (if videoElement p = None then Inr (p, []) else onComplete p)"
| "step p VideoClick =
     (if videoElement p = None \<or> VideoNode \<notin> set (container p) then Inr (p, [])
      else videoClick p)"
| "step p SkipButtonClick = skipButtonClick p"
| "step p CallSkip = skip p"
| "step p CallDestroy = Inr (destroy p)"

text \<open>A sequence of signals; an uncaught exception ends the run.\<close>

fun run :: "player \<Rightarrow> signal list \<Rightarrow> js_error + (player \<times> effect list)" where
  "run p [] = Inr (p, [])"
| "run p (s # ss) =
     (case step p s of
        Inl e \<Rightarrow> Inl e
      | Inr (p1, fx) \<Rightarrow>
          (case run p1 ss of
             Inl e \<Rightarrow> Inl e
           | Inr (p2, fx2) \<Rightarrow> Inr (p2, fx @ fx2)))"

section \<open>BuzzerInterstitial\<close>

text \<open>
  The interstitial object with the parts of the page it owns: whether \<open>this.overlay\<close>
  holds the overlay element, whether the close button exists and is displayed,
  whether \<open>this.timer\<close> holds an interval id and whether that interval is still
  scheduled, the countdown variable of \<open>show\<close> and the number the countdown text shows.
\<close>

record interstitial_args =
  iarg_onClose :: "callback option"
  iarg_closeAfter :: "jsnum option"

record interstitial =
  i_onClose :: "callback option"
  i_closeAfter :: jsnum
  i_overlay :: bool
  i_closeButton :: "bool option"
  i_timer :: bool
  i_ticking :: bool
  i_remaining :: jsnum
  i_timerDisplay :: "jsnum option"

definition new_interstitial :: "interstitial_args \<Rightarrow> interstitial" where
  "new_interstitial args =
     \<lparr> i_onClose = iarg_onClose args,
       i_closeAfter = (case iarg_closeAfter args of None \<Rightarrow> Fin 5 | Some n \<Rightarrow> n),
       i_overlay = False,
       i_closeButton = None,
       i_timer = False,
       i_ticking = False,
       i_remaining = Fin 0,
       i_timerDisplay = None \<rparr>"

definition show_interstitial :: "interstitial \<Rightarrow> interstitial \<times> effect list" where
  "show_interstitial i =
     (i\<lparr>i_overlay := True,
        i_closeButton := Some False,
        i_timer := True,
        i_ticking := True,
        i_remaining := i_closeAfter i,
        i_timerDisplay := Some (i_closeAfter i)\<rparr>,
      [AppendOverlay])"

text \<open>\<open>a <= b\<close>: false when either side is NaN.\<close>

definition js_le :: "jsnum \<Rightarrow> jsnum \<Rightarrow> bool" where
  "js_le a b = (a \<noteq> NaN \<and> b \<noteq> NaN \<and> \<not> js_lt b a)"

text \<open>The function given to \<open>setInterval\<close>, called once a second while scheduled.\<close>

definition tick :: "interstitial \<Rightarrow> interstitial \<times> effect list" where
  "tick i =
     (if \<not> i_ticking i then (i, [])
      else (let remaining = js_sub (i_remaining i) (Fin 1)
            in if js_le remaining (Fin 0)
               then (i\<lparr>i_remaining := remaining, i_ticking := False,
                       i_timerDisplay := None, i_closeButton := Some True\<rparr>,
                     [ClearInterval])
               else (i\<lparr>i_remaining := remaining, i_timerDisplay := Some remaining\<rparr>, [])))"

definition close_interstitial :: "interstitial \<Rightarrow> interstitial \<times> effect list" where
  "close_interstitial i =
     (i\<lparr>i_ticking := (if i_timer i then False else i_ticking i),
        i_overlay := False\<rparr>,
      (if i_timer i then [ClearInterval] else [])
      @ (if i_overlay i then [RemoveOverlay] else [])
      @ invoke (i_onClose i) [])"

section \<open>BuzzerRewardedAd\<close>

text \<open>
  The rewarded ad with what it owns on the page: whether \<open>this.overlay\<close> holds the
  overlay, its player, the reward pop-ups now in the document and the \<open>setTimeout\<close>
  callbacks of \<open>grantReward\<close> not yet run.
\<close>

record rewarded_args =
  rarg_vastUrl :: "string option"
  rarg_rewardType :: "string option"
  rarg_rewardAmount :: "jsnum option"
  rarg_onReward :: "callback option"
  rarg_onClose :: "callback option"
  rarg_onError :: "callback option"

record rewarded =
  rw_vastUrl :: "string option"
  rw_rewardType :: string
  rw_rewardAmount :: jsnum
  rw_onReward :: "callback option"
  rw_onClose :: "callback option"
  rw_onError :: "callback option"
  rw_overlay :: bool
  rw_player :: "player option"
  rw_popups :: nat
  rw_timeouts :: nat

definition new_rewarded :: "rewarded_args \<Rightarrow> rewarded" where
  "new_rewarded args =
     \<lparr> rw_vastUrl = rarg_vastUrl args,
       rw_rewardType = (case rarg_rewardType args of None \<Rightarrow> ''coins'' | Some s \<Rightarrow> s),
       rw_rewardAmount = (case rarg_rewardAmount args of None \<Rightarrow> Fin 100 | Some n \<Rightarrow> n),
       rw_onReward = rarg_onReward args,
       rw_onClose = rarg_onClose args,
       rw_onError = rarg_onError args,
       rw_overlay = False,
       rw_player = None,
       rw_popups = 0,
       rw_timeouts = 0 \<rparr>"

definition grantReward :: "rewarded \<Rightarrow> rewarded \<times> effect list" where
  "grantReward r =
     (r\<lparr>rw_popups := Suc (rw_popups r), rw_timeouts := Suc (rw_timeouts r)\<rparr>, [AppendPopup])"

text \<open>The function \<open>grantReward\<close> gives to \<open>setTimeout\<close>, when one is pending.\<close>

definition reward_timeout :: "rewarded \<Rightarrow> rewarded \<times> effect list" where
  "reward_timeout r =
     (if rw_timeouts r = 0 then (r, [])
      else (r\<lparr>rw_popups := rw_popups r - 1, rw_timeouts := rw_timeouts r - 1\<rparr>,
            RemovePopup
            # invoke (rw_onReward r)
                [VObj [(''type'', VStr (rw_rewardType r)),
                       (''amount'', VNum (rw_rewardAmount r))]]))"

definition close_rewarded :: "rewarded \<Rightarrow> rewarded \<times> effect list" where
  "close_rewarded r =
     (case (case rw_player r of
              None \<Rightarrow> (None, [])
            | Some p \<Rightarrow> (case destroy p of (p1, dfx) \<Rightarrow> (Some p1, dfx))) of
        (pl, dfx) \<Rightarrow>
          (r\<lparr>rw_player := pl, rw_overlay := False\<rparr>,
           dfx @ (if rw_overlay r then [RemoveOverlay] else []) @ invoke (rw_onClose r) []))"

text \<open>
  The player reports a call of one of its callbacks as an \<open>Invoke\<close>; here the two
  closures of \<open>show\<close> run in its place: \<open>onComplete\<close> is
  \<open>grantReward(); close()\<close> and \<open>onError\<close> is
  \<open>if (this.options.onError) this.options.onError(error); close()\<close>. The player
  methods that call them change nothing in the player around the call, so running the
  closure on the state the method returns is running it where the call stands.
\<close>

fun dispatch :: "rewarded \<Rightarrow> effect list \<Rightarrow> rewarded \<times> effect list" where
  "dispatch r [] = (r, [])"
| "dispatch r (Invoke RewardedComplete args # fx) =
     (case grantReward r of (r1, e1) \<Rightarrow>
      case close_rewarded r1 of (r2, e2) \<Rightarrow>
      case dispatch r2 fx of (r3, e3) \<Rightarrow> (r3, e1 @ e2 @ e3))"
| "dispatch r (Invoke RewardedError args # fx) =
     (case close_rewarded r of (r1, e1) \<Rightarrow>
      case dispatch r1 fx of (r2, e2) \<Rightarrow> (r2, invoke (rw_onError r) args @ e1 @ e2))"
| "dispatch r (e # fx) = (case dispatch r fx of (r1, e1) \<Rightarrow> (r1, e # e1))"

text \<open>
  \<open>show\<close> builds the overlay and the player and calls \<open>this.player.load()\<close>;
  \<open>outcome\<close> is what the fetch of that load comes to.
\<close>

definition rewarded_player_args :: "rewarded \<Rightarrow> player_args" where
  "rewarded_player_args r =
     \<lparr> arg_vastUrl = rw_vastUrl r,
       arg_width = Some 640,
       arg_height = Some 360,
       arg_autoplay = Some True,
       arg_muted = Some False,
       arg_onComplete = Some RewardedComplete,
       arg_onSkip = None,
       arg_onError = Some RewardedError,
       arg_onReward = None,
       arg_skipOffset = Some None \<rparr>"

definition show_rewarded :: "rewarded \<Rightarrow> fetched \<Rightarrow> rewarded \<times> effect list" where
  "show_rewarded r outcome =
     (case load (new_player [] (rewarded_player_args r)) outcome of
        (p, fx) \<Rightarrow>
          (case dispatch (r\<lparr>rw_overlay := True, rw_player := Some p\<rparr>) fx of
             (r1, fx1) \<Rightarrow> (r1, AppendOverlay # fx1)))"

text \<open>
  What can reach a shown rewarded ad: a signal to its player, a pending time-out
  running, and a direct call of \<open>close\<close>.
\<close>

datatype rewarded_signal = ToPlayer signal | Timeout | CallClose

fun rewarded_step :: "rewarded \<Rightarrow> rewarded_signal \<Rightarrow> js_error + (rewarded \<times> effect list)" where
  "rewarded_step r (ToPlayer s) =
     (case rw_player r of
        None \<Rightarrow> Inr (r, [])
      | Some p \<Rightarrow>
          (case step p s of
             Inl e \<Rightarrow> Inl e
           | Inr (p1, fx) \<Rightarrow> Inr (dispatch (r\<lparr>rw_player := Some p1\<rparr>) fx)))"
| "rewarded_step r Timeout = Inr (reward_timeout r)"
| "rewarded_step r CallClose = Inr (close_rewarded r)"

fun rewarded_run :: "rewarded \<Rightarrow> rewarded_signal list \<Rightarrow> js_error + (rewarded \<times> effect list)" where
  "rewarded_run r [] = Inr (r, [])"
| "rewarded_run r (s # ss) =
     (case rewarded_step r s of
        Inl e \<Rightarrow> Inl e
      | Inr (r1, fx) \<Rightarrow>
          (case rewarded_run r1 ss of
             Inl e \<Rightarrow> Inl e
           | Inr (r2, fx2) \<Rightarrow> Inr (r2, fx @ fx2)))"

section \<open>What the specification says of the parser\<close>

text \<open>
  The last-wins reading of the specification, written on its own: the URL kept for an
  event is that of the last \<open>Tracking\<close> element, in document order, carrying the event.
\<close>

fun last_tracking_url :: "string \<Rightarrow> tracking_element list \<Rightarrow> string option" where
  "last_tracking_url k [] = None"
| "last_tracking_url k (t # ts) =
     (case last_tracking_url k ts of
        Some u \<Rightarrow> Some u
      | None \<Rightarrow> if te_event t = Some k then Some (trim (te_textContent t)) else None)"

definition event_kinds :: "string list" where
  "event_kinds =
     [''start'', ''firstQuartile'', ''midpoint'', ''thirdQuartile'', ''complete'', ''skip'', ''click'']"






text \<open>A document in which none of the queried elements occurs.\<close>

definition empty_doc :: vast_doc where
  "empty_doc =
     \<lparr> q_MediaFile = None, q_ClickThrough = None, q_Impression = None,
       q_ClickTracking = None, q_Linear_skipoffset = None, q_Tracking = [] \<rparr>"

section \<open>Vocabulary for the claims about players\<close>

text \<open>
  A player is rendered once \<open>load\<close> has stored the descriptor and \<open>render\<close> has
  created the video element; only then do the listeners exist that deliver signals.
\<close>

definition rendered :: "player \<Rightarrow> bool" where
  "rendered p =
     (case vastData p of
        None \<Rightarrow> False
      | Some vd \<Rightarrow> (case videoElement p of None \<Rightarrow> False | Some v \<Rightarrow> True))"

text \<open>
  The skip control agrees with the descriptor and the recorded time: it exists exactly
  when the descriptor's skip offset is not \<open>null\<close>, and it is disabled exactly when
  \<open>Math.ceil(skipOffset - currentTime) > 0\<close>.
\<close>

definition button_consistent :: "player \<Rightarrow> bool" where
  "button_consistent p =
     (case vastData p of
        None \<Rightarrow> False
      | Some vd \<Rightarrow>
          (case skipButton p of
             None \<Rightarrow> skipOffset vd = None
           | Some b \<Rightarrow>
               skipOffset vd \<noteq> None \<and>
               sb_disabled b
                 = js_gt (js_ceil (js_sub (to_number (skipOffset vd)) (currentTime p))) (Fin 0)))"

text \<open>The effects of one \<open>fireTracking(event)\<close> under a descriptor.\<close>

definition tracking_effects :: "vast_data \<Rightarrow> string \<Rightarrow> effect list" where
  "tracking_effects vd event =
     [FireTracking event]
     @ (case trackingEvents vd event of
          None \<Rightarrow> []
        | Some url \<Rightarrow> if str_truthy url then [Pixel url] else [])
     @ (case clickTracking vd of
          None \<Rightarrow> []
        | Some url \<Rightarrow> if event = ''click'' \<and> str_truthy url then [Pixel url] else [])"

fun is_Invoke :: "effect \<Rightarrow> bool" where
  "is_Invoke (Invoke f args) = True"
| "is_Invoke _ = False"

fun is_FireTracking :: "effect \<Rightarrow> bool" where
  "is_FireTracking (FireTracking e) = True"
| "is_FireTracking _ = False"

text \<open>How often \<open>fireTracking(event)\<close> was called in a run.\<close>

definition fired_count :: "string \<Rightarrow> effect list \<Rightarrow> nat" where
  "fired_count event fx = length (filter (\<lambda>x. x = FireTracking event) fx)"

text \<open>The events whose firing the player records in \<open>trackingFired\<close>.\<close>

definition guarded_events :: "string list" where
  "guarded_events = [''start'', ''firstQuartile'', ''midpoint'', ''thirdQuartile'']"

definition percent_of :: "jsnum \<Rightarrow> jsnum \<Rightarrow> jsnum" where
  "percent_of t d = js_mul (js_div t d) (Fin 100)"

subsection \<open>A sample document and sample players\<close>

definition sample_doc :: vast_doc where
  "sample_doc =
     \<lparr> q_MediaFile = Some \<lparr> me_textContent = ''https://cdn.example/ad.mp4'',
                             me_type = Some ''video/mp4'',
                             me_width = Some ''640'', me_height = Some ''360'' \<rparr>,
       q_ClickThrough = Some ''https://example/landing'',
       q_Impression = Some ''https://t.example/imp'',
       q_ClickTracking = Some ''https://t.example/clk'',
       q_Linear_skipoffset = Some (Some ''00:00:05''),
       q_Tracking =
         [\<lparr>te_event = Some ''start'', te_textContent = ''https://t.example/start''\<rparr>,
          \<lparr>te_event = Some ''firstQuartile'', te_textContent = ''https://t.example/q1''\<rparr>,
          \<lparr>te_event = Some ''midpoint'', te_textContent = ''https://t.example/q2''\<rparr>,
          \<lparr>te_event = Some ''thirdQuartile'', te_textContent = ''https://t.example/q3''\<rparr>,
          \<lparr>te_event = Some ''complete'', te_textContent = ''https://t.example/done''\<rparr>,
          \<lparr>te_event = Some ''skip'', te_textContent = ''https://t.example/skip''\<rparr>] \<rparr>"


definition sample_args :: player_args where
  "sample_args =
     \<lparr> arg_vastUrl = Some ''https://ads.example/vast.xml'',
       arg_width = None, arg_height = None, arg_autoplay = None, arg_muted = None,
       arg_onComplete = Some (Caller OnComplete),
       arg_onSkip = Some (Caller OnSkip),
       arg_onError = Some (Caller OnError),
       arg_onReward = Some (Caller OnReward),
       arg_skipOffset = None \<rparr>"

definition sample_player :: player where
  "sample_player = fst (load (new_player [] sample_args) (Resolved sample_doc))"


definition sample_rewarded_args :: rewarded_args where
  "sample_rewarded_args =
     \<lparr> rarg_vastUrl = Some ''https://ads.example/vast.xml'',
       rarg_rewardType = Some ''gems'',
       rarg_rewardAmount = Some (Fin 50),
       rarg_onReward = Some (Caller OnReward),
       rarg_onClose = Some (Caller OnClose),
       rarg_onError = Some (Caller OnError) \<rparr>"

definition sample_interstitial :: interstitial where
  "sample_interstitial =
     new_interstitial \<lparr> iarg_onClose = Some (Caller OnClose), iarg_closeAfter = None \<rparr>"

text \<open>The sample rewarded ad after \<open>show\<close>, its document fetched.\<close>

definition shown_rewarded :: rewarded where
  "shown_rewarded = fst (show_rewarded (new_rewarded sample_rewarded_args) (Resolved sample_doc))"

text \<open>
  A stretch of a run, from fired-record \<open>F0\<close> to fired-record \<open>F\<close> with effects
  \<open>fx\<close>, fires each guarded event at most once, and only one that was not recorded at
  its start and is recorded at its end.
\<close>

definition fired_once :: "string set \<Rightarrow> string set \<Rightarrow> effect list \<Rightarrow> bool" where
  "fired_once F0 F fx =
     (F0 \<subseteq> F \<and>
      (\<forall>e \<in> set guarded_events.
         fired_count e fx \<le> 1 \<and> (0 < fired_count e fx \<longrightarrow> e \<in> F \<and> e \<notin> F0)))"

subsection \<open>Vocabulary for the claims about the rewarded ad\<close>







section \<open>Lemmas about strings and parseInt\<close>















lemma set_tracking_apply:
  "k \<noteq> ''__proto__'' \<Longrightarrow> k \<noteq> ''null'' \<Longrightarrow>
   set_tracking t m k = (if te_event t = Some k then Some (trim (te_textContent t)) else m k)"
  by (auto simp: set_tracking_def Let_def tracking_key_def split: option.splits)

lemma find_last_tracking:
  assumes "k \<noteq> ''__proto__''" "k \<noteq> ''null''"
  shows "fold set_tracking ts m k =
     (case last_tracking_url k ts of None \<Rightarrow> m k | Some u \<Rightarrow> Some u)"
proof (induction ts arbitrary: m)
  case Nil
  show ?case by simp
next
  case (Cons t ts)
  have "fold set_tracking (t # ts) m k = fold set_tracking ts (set_tracking t m) k"
    by simp
  also have "\<dots> = (case last_tracking_url k ts of
                      None \<Rightarrow> set_tracking t m k | Some u \<Rightarrow> Some u)"
    by (rule Cons.IH)
  also have "\<dots> = (case last_tracking_url k (t # ts) of None \<Rightarrow> m k | Some u \<Rightarrow> Some u)"
    by (simp add: set_tracking_apply [OF assms] split: option.splits)
  finally show ?case .
qed

section \<open>The parser: tracking events and skip offset\<close>

text \<open>
  C9. For every document and each of the seven event kinds, the descriptor's
  \<open>trackingEvents\<close> holds for that kind the (trimmed) URL of the last \<open>Tracking\<close>
  element of the kind in document order, and nothing when there is none.
\<close>

theorem parseVast_tracking_last_wins:
  assumes "k \<in> set event_kinds"
  shows "trackingEvents (parseVast doc) k = last_tracking_url k (q_Tracking doc)"
proof -
  from assms have k: "k \<noteq> ''__proto__''" "k \<noteq> ''null''"
    by (auto simp: event_kinds_def)
  show ?thesis
    by (simp add: parseVast_def collect_tracking_def find_last_tracking [OF k]
        split: option.splits)
qed

theorem parseVast_tracking_last_wins_witness:
  "''complete'' \<in> set event_kinds \<and>
   trackingEvents
     (parseVast (empty_doc\<lparr>q_Tracking :=
                   [\<lparr>te_event = Some ''complete'', te_textContent = ''A''\<rparr>,
                    \<lparr>te_event = Some ''complete'', te_textContent = ''B''\<rparr>]\<rparr>))
     ''complete'' = Some ''B''"
proof -
  have k: "''complete'' \<in> set event_kinds" by (simp add: event_kinds_def)
  show ?thesis
    using k parseVast_tracking_last_wins [OF k]
    by (simp add: trim_def is_js_space_def)
qed




section \<open>Lemmas about the player\<close>

lemma fireTracking_rendered:
  "vastData p = Some vd \<Longrightarrow> fireTracking p event = Inr (tracking_effects vd event)"
  by (simp add: fireTracking_def tracking_effects_def firePixel_def split: option.splits)

lemma updateSkipButton_returns:
  assumes "vastData p = Some vd"
  shows "\<exists>p1. updateSkipButton p = Inr p1 \<and> vastData p1 = Some vd
           \<and> videoElement p1 = videoElement p \<and> trackingFired p1 = trackingFired p
           \<and> currentTime p1 = currentTime p \<and> options p1 = options p
           \<and> container p1 = container p
           \<and> (skipButton p1 = None) = (skipButton p = None)"
  using assms by (auto simp: updateSkipButton_def Let_def split: option.splits)

lemma updateSkipButton_disabled:
  assumes "vastData p = Some vd" "updateSkipButton p = Inr p1" "skipButton p1 = Some b"
  shows "sb_disabled b
           = js_gt (js_ceil (js_sub (to_number (skipOffset vd)) (currentTime p))) (Fin 0)"
  using assms by (auto simp: updateSkipButton_def Let_def split: option.splits if_splits)

lemma quartile_rendered:
  assumes "vastData p = Some vd"
  shows "quartile percent th event (p, fx) =
           (if js_ge percent (Fin th) \<and> event \<notin> trackingFired p
            then Inr (p\<lparr>trackingFired := insert event (trackingFired p)\<rparr>,
                      fx @ tracking_effects vd event)
            else Inr (p, fx))"
  using assms by (simp add: quartile_def fireTracking_rendered)

lemma render_returns:
  assumes vd: "vastData p = Some vd"
  shows "\<exists>p' fx. render p = Inr (p', fx) \<and> vastData p' = Some vd
           \<and> videoElement p' \<noteq> None \<and> options p' = options p
           \<and> trackingFired p' = trackingFired p \<and> currentTime p' = currentTime p
           \<and> (skipOffset vd = None \<longrightarrow> skipButton p' = skipButton p)
           \<and> (skipOffset vd \<noteq> None \<longrightarrow>
                (\<exists>b. skipButton p' = Some b \<and> sb_disabled b
                   = js_gt (js_ceil (js_sub (to_number (skipOffset vd)) (currentTime p))) (Fin 0)))"
proof (cases "skipOffset vd = None")
  case True
  then show ?thesis using vd by (simp add: render_def Let_def)
next
  case False
  define p1 where "p1 = p\<lparr>container := [VideoNode],
                      videoElement := Some \<lparr>ve_src = mediaFile vd,
                                            ve_width = opt_width (options p),
                                            ve_height = opt_height (options p),
                                            ve_muted = opt_muted (options p)\<rparr>\<rparr>"
  define p2 where "p2 = p1\<lparr>skipButton := Some \<lparr>sb_textContent = None, sb_disabled = False, sb_opacity = []\<rparr>\<rparr>"
  have vd2: "vastData p2 = Some vd" using vd by (simp add: p2_def p1_def)
  from updateSkipButton_returns [OF vd2]
  obtain p3 where p3: "updateSkipButton p2 = Inr p3" "vastData p3 = Some vd"
    "videoElement p3 = videoElement p2" "trackingFired p3 = trackingFired p2"
    "currentTime p3 = currentTime p2" "options p3 = options p2"
    "container p3 = container p2"
    "(skipButton p3 = None) = (skipButton p2 = None)"
    by (elim exE conjE) (rule that; assumption)
  then obtain b where b: "skipButton p3 = Some b" by (auto simp: p2_def)
  from updateSkipButton_disabled [OF vd2 p3(1) b]
  have db: "sb_disabled b = js_gt (js_ceil (js_sub (to_number (skipOffset vd)) (currentTime p))) (Fin 0)"
    by (simp add: p2_def p1_def)
  have c: "createSkipButton p1 = Inr (p3\<lparr>container := container p3 @ [SkipButtonNode]\<rparr>)"
    using p3(1) by (simp add: createSkipButton_def p2_def)
  have r: "render p = Inr (p3\<lparr>container := container p3 @ [SkipButtonNode] @ [AdLabelNode]\<rparr>,
                       (case impressionUrl vd of
                          None \<Rightarrow> []
                        | Some url \<Rightarrow> if str_truthy url then firePixel url else [])
                       @ (if opt_autoplay (options p) then [VideoPlay] else []))"
    using vd False c [unfolded p1_def] by (simp add: render_def Let_def)
  have f: "vastData p3 = Some vd" "videoElement p3 \<noteq> None" "options p3 = options p"
    "trackingFired p3 = trackingFired p" "currentTime p3 = currentTime p"
    using p3 by (simp_all add: p2_def p1_def)
  show ?thesis
    unfolding r using f b db False by auto
qed

lemma load_resolved:
  assumes "load (new_player c args) (Resolved doc) = (p, lfx)" "videoElement p \<noteq> None"
  shows "vastData p = Some (parseVast doc) \<and> options p = options (new_player c args)
         \<and> trackingFired p = {} \<and> currentTime p = Fin 0
         \<and> rendered p \<and> button_consistent p"
proof -
  define p1 where "p1 = (new_player c args)\<lparr>vastData := Some (parseVast doc)\<rparr>"
  have vd1: "vastData p1 = Some (parseVast doc)" by (simp add: p1_def)
  have ve0: "videoElement (new_player c args) = None" "videoElement p1 = None"
    by (simp_all add: p1_def new_player_def)
  from render_returns [OF vd1]
  obtain p' fx where r: "render p1 = Inr (p', fx)" "vastData p' = Some (parseVast doc)"
    "videoElement p' \<noteq> None" "options p' = options p1" "trackingFired p' = trackingFired p1"
    "currentTime p' = currentTime p1"
    "skipOffset (parseVast doc) = None \<longrightarrow> skipButton p' = skipButton p1"
    "skipOffset (parseVast doc) \<noteq> None \<longrightarrow>
                (\<exists>b. skipButton p' = Some b \<and> sb_disabled b
                   = js_gt (js_ceil (js_sub (to_number (skipOffset (parseVast doc))) (currentTime p1))) (Fin 0))"
    by (elim exE conjE) (rule that; assumption)
  have eq: "p = p'"
    using assms ve0 r(1) [unfolded p1_def]
    by (auto simp: load_def Let_def split: if_splits)
  have init: "options p1 = options (new_player c args)" "trackingFired p1 = {}"
    "currentTime p1 = Fin 0" "skipButton p1 = None"
    by (simp_all add: p1_def new_player_def)
  have rd: "rendered p'"
    using r(2,3) by (auto simp: rendered_def split: option.splits)
  have bc: "button_consistent p'"
    using r(2,6,7,8) init(4) by (auto simp: button_consistent_def split: option.splits)
  show ?thesis
    using r(2,4,5,6) init rd bc by (simp add: eq)
qed

section \<open>Completion, quartiles and position updates\<close>



text \<open>
  C7. On a rendered player none of whose quartile events has fired, one position update
  that reaches 75 percent or more calls \<open>fireTracking\<close> for \<open>firstQuartile\<close>,
  \<open>midpoint\<close> and \<open>thirdQuartile\<close>, in this order and once each, with the beacon of
  each right after its call, and records all three as fired.
\<close>

theorem onTimeUpdate_fires_quartiles_in_order:
  assumes "rendered p"
    and "''firstQuartile'' \<notin> trackingFired p"
    and "''midpoint'' \<notin> trackingFired p"
    and "''thirdQuartile'' \<notin> trackingFired p"
    and "js_ge (percent_of t d) (Fin 75)"
  shows "\<exists>p' fx vd. onTimeUpdate p t d = Inr (p', fx) \<and> vastData p = Some vd
           \<and> fx = tracking_effects vd ''firstQuartile'' @ tracking_effects vd ''midpoint''
                  @ tracking_effects vd ''thirdQuartile''
           \<and> filter is_FireTracking fx
               = [FireTracking ''firstQuartile'', FireTracking ''midpoint'',
                  FireTracking ''thirdQuartile'']
           \<and> {''firstQuartile'', ''midpoint'', ''thirdQuartile''} \<subseteq> trackingFired p'"
proof -
  from assms(1) obtain vd v where vd: "vastData p = Some vd" and ve: "videoElement p = Some v"
    by (auto simp: rendered_def split: option.splits)
  have vdt: "vastData (p\<lparr>currentTime := t\<rparr>) = Some vd" using vd by simp
  from updateSkipButton_returns [OF vdt]
  obtain p1 where up: "updateSkipButton (p\<lparr>currentTime := t\<rparr>) = Inr p1"
    and p1: "vastData p1 = Some vd" "trackingFired p1 = trackingFired p"
    by auto
  from assms(5) have ge: "js_ge (percent_of t d) (Fin 25)" "js_ge (percent_of t d) (Fin 50)"
    by (cases "percent_of t d"; simp add: js_ge_def)+
  define s1 where "s1 = p1\<lparr>trackingFired := insert ''firstQuartile'' (trackingFired p1)\<rparr>"
  define s2 where "s2 = s1\<lparr>trackingFired := insert ''midpoint'' (trackingFired s1)\<rparr>"
  define s3 where "s3 = s2\<lparr>trackingFired := insert ''thirdQuartile'' (trackingFired s2)\<rparr>"
  have v: "vastData s1 = Some vd" "vastData s2 = Some vd"
    using p1 by (simp_all add: s1_def s2_def)
  have tf: "trackingFired s1 = insert ''firstQuartile'' (trackingFired p)"
    "trackingFired s2 = insert ''midpoint'' (insert ''firstQuartile'' (trackingFired p))"
    by (simp_all add: s1_def s2_def p1(2))
  have q1: "quartile (percent_of t d) 25 ''firstQuartile'' (p1, [])
              = Inr (s1, tracking_effects vd ''firstQuartile'')"
    using ge(1) assms(2) by (simp add: quartile_rendered [OF p1(1)] p1(2) s1_def)
  have q2: "quartile (percent_of t d) 50 ''midpoint'' (s1, tracking_effects vd ''firstQuartile'')
              = Inr (s2, tracking_effects vd ''firstQuartile'' @ tracking_effects vd ''midpoint'')"
    using ge(2) assms(3) by (simp add: quartile_rendered [OF v(1)] tf(1) s2_def)
  have q3: "quartile (percent_of t d) 75 ''thirdQuartile''
              (s2, tracking_effects vd ''firstQuartile'' @ tracking_effects vd ''midpoint'')
              = Inr (s3, (tracking_effects vd ''firstQuartile'' @ tracking_effects vd ''midpoint'')
                         @ tracking_effects vd ''thirdQuartile'')"
    using assms(5) assms(4) by (simp add: quartile_rendered [OF v(2)] tf(2) s3_def)
  have run: "onTimeUpdate p t d
               = Inr (s3, tracking_effects vd ''firstQuartile'' @ tracking_effects vd ''midpoint''
                          @ tracking_effects vd ''thirdQuartile'')"
    unfolding onTimeUpdate_def Let_def percent_of_def [symmetric]
    by (simp add: ve up q1 q2 q3)
  have ft: "\<And>e. filter is_FireTracking (tracking_effects vd e) = [FireTracking e]"
    by (simp add: tracking_effects_def split: option.splits)
  have fired: "{''firstQuartile'', ''midpoint'', ''thirdQuartile''} \<subseteq> trackingFired s3"
    by (simp add: s3_def tf)
  show ?thesis
    using vd fired by (simp add: run ft)
qed

theorem onTimeUpdate_fires_quartiles_in_order_witness:
  "rendered sample_player
   \<and> ''firstQuartile'' \<notin> trackingFired sample_player
   \<and> ''midpoint'' \<notin> trackingFired sample_player
   \<and> ''thirdQuartile'' \<notin> trackingFired sample_player
   \<and> js_ge (percent_of (Fin 27) (Fin 30)) (Fin 75)
   \<and> (\<exists>p' fx. onTimeUpdate sample_player (Fin 27) (Fin 30) = Inr (p', fx)
        \<and> filter is_FireTracking fx
            = [FireTracking ''firstQuartile'', FireTracking ''midpoint'',
               FireTracking ''thirdQuartile''])"
proof -
  have r: "rendered sample_player" by code_simp
  have f: "''firstQuartile'' \<notin> trackingFired sample_player"
    "''midpoint'' \<notin> trackingFired sample_player"
    "''thirdQuartile'' \<notin> trackingFired sample_player" by code_simp+
  have g: "js_ge (percent_of (Fin 27) (Fin 30)) (Fin 75)" by code_simp
  show ?thesis
    using r f g onTimeUpdate_fires_quartiles_in_order [OF r f g] by blast
qed

text \<open>
  C5, as the claim states it, fails: on the sample player, an update that reports
  position 10 with duration 0 fires all three quartile events and sets the recorded
  time to 10.
\<close>

theorem onTimeUpdate_zero_duration_counterexample:
  "map_sum id (\<lambda>(p, fx). (currentTime p, filter is_FireTracking fx))
     (onTimeUpdate sample_player (Fin 10) (Fin 0))
   = Inr (Fin 10, [FireTracking ''firstQuartile'', FireTracking ''midpoint'',
                   FireTracking ''thirdQuartile''])
   \<and> currentTime sample_player = Fin 0"
  by code_simp

text \<open>
  C5, amended. On a rendered player, a position update whose duration is undefined
  (NaN), or whose duration and position are both zero, fires nothing and leaves the
  fired-event record as it was; the recorded time becomes the reported position.
\<close>

theorem onTimeUpdate_undefined_duration:
  assumes "rendered p" and "d = NaN \<or> (d = Fin 0 \<and> t = Fin 0)"
  shows "\<exists>p'. onTimeUpdate p t d = Inr (p', []) \<and> trackingFired p' = trackingFired p
           \<and> currentTime p' = t"
proof -
  from assms(1) obtain vd v where vd: "vastData p = Some vd" and ve: "videoElement p = Some v"
    by (auto simp: rendered_def split: option.splits)
  have vdt: "vastData (p\<lparr>currentTime := t\<rparr>) = Some vd" using vd by simp
  from updateSkipButton_returns [OF vdt]
  obtain p1 where up: "updateSkipButton (p\<lparr>currentTime := t\<rparr>) = Inr p1"
    and p1: "vastData p1 = Some vd" "trackingFired p1 = trackingFired p" "currentTime p1 = t"
    by auto
  from assms(2) have pc: "percent_of t d = NaN"
    by (cases t) (auto simp: percent_of_def inf_of_sign_def)
  have q: "\<And>th e. quartile NaN th e (p1, []) = Inr (p1, [])"
    by (simp add: quartile_rendered [OF p1(1)] js_ge_def)
  have run: "onTimeUpdate p t d = Inr (p1, [])"
    unfolding onTimeUpdate_def Let_def percent_of_def [symmetric] pc
    by (simp add: ve up q)
  show ?thesis
    using p1 by (simp add: run)
qed

theorem onTimeUpdate_undefined_duration_witness:
  "rendered sample_player \<and> (NaN = NaN \<or> (NaN = Fin 0 \<and> Fin 3 = Fin 0))
   \<and> (\<exists>p'. onTimeUpdate sample_player (Fin 3) NaN = Inr (p', [])
         \<and> trackingFired p' = trackingFired sample_player \<and> currentTime p' = Fin 3)
   \<and> (Fin 0 = NaN \<or> (Fin 0 = Fin 0 \<and> Fin 0 = Fin 0))
   \<and> (\<exists>p'. onTimeUpdate sample_player (Fin 0) (Fin 0) = Inr (p', [])
         \<and> trackingFired p' = trackingFired sample_player \<and> currentTime p' = Fin 0)"
proof -
  have r: "rendered sample_player" by code_simp
  have d: "NaN = NaN \<or> (NaN = Fin 0 \<and> Fin 3 = Fin 0)" by simp
  have z: "Fin 0 = NaN \<or> (Fin 0 = Fin 0 \<and> Fin 0 = Fin 0)" by simp
  show ?thesis
    using r d z onTimeUpdate_undefined_duration [OF r d]
      onTimeUpdate_undefined_duration [OF r z] by blast
qed

section \<open>Repeated signals, and the skip control of a rewarded ad\<close>

text \<open>
  C1. The claim asks that \<open>complete\<close> and \<open>skip\<close> fire at most once however often
  \<open>ended\<close> and \<open>skip()\<close> arrive. \<open>onStart\<close> and \<open>onTimeUpdate\<close> consult
  \<open>trackingFired\<close>; \<open>onComplete\<close> and \<open>skip\<close> do not. On the sample player two
  \<open>ended\<close> signals send the \<open>complete\<close> beacon twice, and two calls of \<open>skip()\<close>
  send the \<open>skip\<close> beacon twice.
\<close>

theorem complete_and_skip_fire_twice:
  "map_sum id snd (run sample_player [Ended, Ended])
     = Inr [FireTracking ''complete'', Pixel ''https://t.example/done'',
            Invoke (Caller OnComplete) [], Invoke (Caller OnReward) [],
            FireTracking ''complete'', Pixel ''https://t.example/done'',
            Invoke (Caller OnComplete) [], Invoke (Caller OnReward) []]
   \<and> map_sum id snd (run sample_player [CallSkip, CallSkip])
     = Inr [FireTracking ''skip'', Pixel ''https://t.example/skip'',
            Invoke (Caller OnSkip) [], VideoPause,
            FireTracking ''skip'', Pixel ''https://t.example/skip'',
            Invoke (Caller OnSkip) [], VideoPause]"
  by code_simp

text \<open>
  C2. \<open>BuzzerRewardedAd.show\<close> passes \<open>skipOffset: null\<close> to its player, but
  \<open>render\<close> decides on the descriptor's \<open>skipOffset\<close> and never reads the option.
  With the sample document, whose \<open>skipoffset\<close> is \<open>00:00:05\<close>, the rewarded ad's
  player holds the option \<open>null\<close> and yet renders the skip control; once 6 seconds
  are reported a click on it skips the ad.
\<close>

theorem rewarded_renders_skip_control:
  "map_option (\<lambda>p. (opt_skipOffset (options p), container p)) (rw_player shown_rewarded)
     = Some (None, [VideoNode, SkipButtonNode, AdLabelNode])
   \<and> map_sum id snd
        (rewarded_run shown_rewarded
           [ToPlayer (TimeUpdate (Fin 6) (Fin 30)), ToPlayer SkipButtonClick])
     = Inr [FireTracking ''skip'', Pixel ''https://t.example/skip'', VideoPause]"
  by code_simp

text \<open>
  C8. \<open>close\<close> removes the overlay once, guarded by \<open>this.overlay\<close>, but calls
  \<open>onClose\<close> outside that guard: a second \<open>close()\<close> calls it again.
\<close>

theorem close_twice_invokes_onClose_twice:
  "snd (close_interstitial (fst (show_interstitial sample_interstitial)))
     = [ClearInterval, RemoveOverlay, Invoke (Caller OnClose) []]
   \<and> snd (close_interstitial
             (fst (close_interstitial (fst (show_interstitial sample_interstitial)))))
     = [ClearInterval, Invoke (Caller OnClose) []]"
  by code_simp



section \<open>What every signal preserves\<close>

lemma fired_count_append [simp]: "fired_count e (fx @ fx') = fired_count e fx + fired_count e fx'"
  by (simp add: fired_count_def)

lemma fired_count_Nil [simp]: "fired_count e [] = 0"
  by (simp add: fired_count_def)

lemma fired_count_invoke [simp]: "fired_count e (invoke f args) = 0"
  by (simp add: fired_count_def invoke_def split: option.splits)

lemma fired_count_tracking_effects:
  "fired_count e (tracking_effects vd ev) = (if e = ev then 1 else 0)"
  by (simp add: fired_count_def tracking_effects_def split: option.splits)

lemma fired_once_refl: "\<forall>e \<in> set guarded_events. fired_count e fx = 0 \<Longrightarrow> fired_once F F fx"
  by (simp add: fired_once_def)

lemma fired_once_fire:
  "ev \<notin> F \<Longrightarrow> fired_once F (insert ev F) (tracking_effects vd ev)"
  by (auto simp: fired_once_def fired_count_tracking_effects)

lemma fired_once_trans:
  assumes "fired_once A B f1" "fired_once B C f2"
  shows "fired_once A C (f1 @ f2)"
  unfolding fired_once_def
proof (intro conjI ballI)
  show "A \<subseteq> C" using assms by (auto simp: fired_once_def)
next
  fix e assume e: "e \<in> set guarded_events"
  from assms e have 1: "fired_count e f1 \<le> 1" "0 < fired_count e f1 \<longrightarrow> e \<in> B \<and> e \<notin> A"
    and 2: "fired_count e f2 \<le> 1" "0 < fired_count e f2 \<longrightarrow> e \<in> C \<and> e \<notin> B"
    and s: "A \<subseteq> B" "B \<subseteq> C"
    by (auto simp: fired_once_def)
  show "fired_count e (f1 @ f2) \<le> 1" using 1 2 by auto
  show "0 < fired_count e (f1 @ f2) \<longrightarrow> e \<in> C \<and> e \<notin> A" using 1 2 s by auto
qed

lemma rendered_cong:
  "vastData p' = vastData p \<Longrightarrow> (videoElement p' = None) = (videoElement p = None)
   \<Longrightarrow> rendered p' = rendered p"
  by (auto simp: rendered_def split: option.splits)

lemma button_consistent_cong:
  "vastData p' = vastData p \<Longrightarrow> skipButton p' = skipButton p \<Longrightarrow> currentTime p' = currentTime p
   \<Longrightarrow> button_consistent p' = button_consistent p"
  by (simp add: button_consistent_def cong: option.case_cong)

lemma guarded_neq:
  "e \<in> set guarded_events \<Longrightarrow> e \<noteq> ''complete'' \<and> e \<noteq> ''skip'' \<and> e \<noteq> ''click''"
  by (auto simp: guarded_events_def)

lemma onStart_invariant:
  assumes r: "rendered p" and b: "button_consistent p"
  shows "\<exists>p' fx. onStart p = Inr (p', fx) \<and> rendered p' \<and> button_consistent p'
           \<and> vastData p' = vastData p \<and> options p' = options p
           \<and> filter is_Invoke fx = []
           \<and> fired_once (trackingFired p) (trackingFired p') fx"
proof -
  from r obtain vd where vd: "vastData p = Some vd"
    by (auto simp: rendered_def split: option.splits)
  have ni: "filter is_Invoke (tracking_effects vd ''start'') = []"
    by (simp add: tracking_effects_def split: option.splits)
  show ?thesis
  proof (cases "''start'' \<in> trackingFired p")
    case True
    then show ?thesis using r b by (simp add: onStart_def fired_once_refl)
  next
    case False
    let ?p' = "p\<lparr>trackingFired := insert ''start'' (trackingFired p)\<rparr>"
    have 1: "onStart p = Inr (?p', tracking_effects vd ''start'')"
      using False by (simp add: onStart_def fireTracking_rendered [OF vd])
    have 2: "rendered ?p'" using r by (simp add: rendered_cong [of ?p' p])
    have 3: "button_consistent ?p'" using b by (simp add: button_consistent_cong [of ?p' p])
    have 4: "fired_once (trackingFired p) (trackingFired ?p') (tracking_effects vd ''start'')"
      using fired_once_fire [OF False] by simp
    show ?thesis using 1 2 3 4 ni by simp
  qed
qed

lemma quartile_invariant:
  assumes vd: "vastData p = Some vd"
  shows "\<exists>S fx'. quartile pc th ev (p, fx) = Inr (p\<lparr>trackingFired := S\<rparr>, fx @ fx')
           \<and> filter is_Invoke fx' = []
           \<and> fired_once (trackingFired p) S fx'"
proof (cases "js_ge pc (Fin th) \<and> ev \<notin> trackingFired p")
  case True
  have ni: "filter is_Invoke (tracking_effects vd ev) = []"
    by (simp add: tracking_effects_def split: option.splits)
  have "quartile pc th ev (p, fx)
          = Inr (p\<lparr>trackingFired := insert ev (trackingFired p)\<rparr>, fx @ tracking_effects vd ev)"
    using True by (simp add: quartile_rendered [OF vd])
  moreover have "fired_once (trackingFired p) (insert ev (trackingFired p)) (tracking_effects vd ev)"
    using True by (simp add: fired_once_fire)
  ultimately show ?thesis using ni by blast
next
  case False
  have "quartile pc th ev (p, fx) = Inr (p\<lparr>trackingFired := trackingFired p\<rparr>, fx @ [])"
    using False by (auto simp: quartile_rendered [OF vd])
  moreover have "fired_once (trackingFired p) (trackingFired p) []"
    by (simp add: fired_once_refl)
  ultimately show ?thesis by (metis filter.simps(1))
qed

lemma onTimeUpdate_invariant:
  assumes r: "rendered p" and b: "button_consistent p"
  shows "\<exists>p' fx. onTimeUpdate p t d = Inr (p', fx) \<and> rendered p' \<and> button_consistent p'
           \<and> vastData p' = vastData p \<and> options p' = options p
           \<and> currentTime p' = t
           \<and> filter is_Invoke fx = []
           \<and> fired_once (trackingFired p) (trackingFired p') fx"
proof -
  from r obtain vd v where vd: "vastData p = Some vd" and ve: "videoElement p = Some v"
    by (auto simp: rendered_def split: option.splits)
  have vdt: "vastData (p\<lparr>currentTime := t\<rparr>) = Some vd" using vd by simp
  from updateSkipButton_returns [OF vdt]
  obtain p1 where up: "updateSkipButton (p\<lparr>currentTime := t\<rparr>) = Inr p1"
    and p1: "vastData p1 = Some vd" "trackingFired p1 = trackingFired p" "currentTime p1 = t"
      "videoElement p1 = videoElement p" "options p1 = options p"
      "(skipButton p1 = None) = (skipButton p = None)"
    by auto
  have bc1: "button_consistent p1"
  proof (cases "skipButton p1")
    case None
    then show ?thesis using b p1 vd by (simp add: button_consistent_def)
  next
    case (Some b1)
    from updateSkipButton_disabled [OF vdt up Some]
    have "sb_disabled b1 = js_gt (js_ceil (js_sub (to_number (skipOffset vd)) t)) (Fin 0)"
      by simp
    moreover have "skipOffset vd \<noteq> None"
      using b p1(6) Some vd by (auto simp: button_consistent_def split: option.splits)
    ultimately show ?thesis using Some p1 by (simp add: button_consistent_def)
  qed
  define pc where "pc = percent_of t d"
  from quartile_invariant [OF p1(1), of pc 25 "''firstQuartile''" "[]"]
  obtain S1 f1 where q1: "quartile pc 25 ''firstQuartile'' (p1, []) = Inr (p1\<lparr>trackingFired := S1\<rparr>, f1)"
    and i1: "filter is_Invoke f1 = []" and o1: "fired_once (trackingFired p) S1 f1"
    using p1(2) by auto
  let ?s1 = "p1\<lparr>trackingFired := S1\<rparr>"
  have v1: "vastData ?s1 = Some vd" using p1 by simp
  from quartile_invariant [OF v1, of pc 50 "''midpoint''" f1]
  obtain S2 f2 where q2: "quartile pc 50 ''midpoint'' (?s1, f1) = Inr (p1\<lparr>trackingFired := S2\<rparr>, f1 @ f2)"
    and i2: "filter is_Invoke f2 = []" and o2: "fired_once S1 S2 f2"
    by auto
  let ?s2 = "p1\<lparr>trackingFired := S2\<rparr>"
  have v2: "vastData ?s2 = Some vd" using p1 by simp
  from quartile_invariant [OF v2, of pc 75 "''thirdQuartile''" "f1 @ f2"]
  obtain S3 f3 where q3: "quartile pc 75 ''thirdQuartile'' (?s2, f1 @ f2) = Inr (p1\<lparr>trackingFired := S3\<rparr>, (f1 @ f2) @ f3)"
    and i3: "filter is_Invoke f3 = []" and o3: "fired_once S2 S3 f3"
    by auto
  let ?s3 = "p1\<lparr>trackingFired := S3\<rparr>"
  have run: "onTimeUpdate p t d = Inr (?s3, (f1 @ f2) @ f3)"
    unfolding onTimeUpdate_def Let_def percent_of_def [symmetric] pc_def [symmetric]
    by (simp add: ve up q1 q2 q3)
  have fo: "fired_once (trackingFired p) S3 ((f1 @ f2) @ f3)"
    by (intro fired_once_trans [OF _ o3] fired_once_trans [OF o1 o2])
  have rd: "rendered ?s3" using r p1 vd by (simp add: rendered_cong [of ?s3 p])
  have bc: "button_consistent ?s3" using bc1 by (simp add: button_consistent_cong [of ?s3 p1])
  show ?thesis
    using run rd bc fo i1 i2 i3 p1 vd by simp
qed

lemma fired_count_WindowOpen: "fired_count e (WindowOpen u # fx) = fired_count e fx"
  by (simp add: fired_count_def)

lemma fired_count_complete:
  assumes "e \<in> set guarded_events"
  shows "fired_count e (tracking_effects vd ''complete'') = 0"
    "fired_count e (tracking_effects vd ''skip'') = 0"
    "fired_count e (tracking_effects vd ''click'') = 0"
  using guarded_neq [OF assms] by (simp_all add: fired_count_tracking_effects)

lemma onComplete_invariant:
  assumes r: "rendered p" and b: "button_consistent p"
  shows "\<exists>fx. onComplete p = Inr (p, fx)
           \<and> filter is_Invoke fx
               = invoke (opt_onComplete (options p)) [] @ invoke (opt_onReward (options p)) []
           \<and> fired_once (trackingFired p) (trackingFired p) fx"
proof -
  from r obtain vd where vd: "vastData p = Some vd"
    by (auto simp: rendered_def split: option.splits)
  have ni: "filter is_Invoke (tracking_effects vd ''complete'') = []"
    by (simp add: tracking_effects_def split: option.splits)
  have inv: "\<And>f. filter is_Invoke (invoke f []) = invoke f []"
    by (simp add: invoke_def split: option.splits)
  have fo: "fired_once (trackingFired p) (trackingFired p)
              (tracking_effects vd ''complete'' @ invoke (opt_onComplete (options p)) []
               @ invoke (opt_onReward (options p)) [])"
    by (rule fired_once_refl) (simp add: fired_count_complete)
  show ?thesis
    using fo by (simp add: onComplete_def fireTracking_rendered [OF vd] ni inv)
qed

lemma videoClick_invariant:
  assumes r: "rendered p"
  shows "\<exists>fx. videoClick p = Inr (p, fx) \<and> filter is_Invoke fx = []
           \<and> fired_once (trackingFired p) (trackingFired p) fx"
proof -
  from r obtain vd where vd: "vastData p = Some vd"
    by (auto simp: rendered_def split: option.splits)
  have ni: "filter is_Invoke (tracking_effects vd ''click'') = []"
    by (simp add: tracking_effects_def split: option.splits)
  have fo: "\<And>u. fired_once (trackingFired p) (trackingFired p)
              (WindowOpen u # tracking_effects vd ''click'')"
    by (rule fired_once_refl) (simp add: fired_count_complete fired_count_WindowOpen)
  have fo0: "fired_once (trackingFired p) (trackingFired p) []"
    by (simp add: fired_once_refl)
  show ?thesis
    using fo fo0 ni
    by (simp add: videoClick_def vd fireTracking_rendered [OF vd] split: option.splits)
qed

lemma destroy_invariant:
  assumes r: "rendered p" and b: "button_consistent p"
  shows "\<exists>p' fx. destroy p = (p', fx) \<and> rendered p' \<and> button_consistent p'
           \<and> vastData p' = vastData p \<and> options p' = options p
           \<and> trackingFired p' = trackingFired p \<and> currentTime p' = currentTime p
           \<and> filter is_Invoke fx = []
           \<and> fired_once (trackingFired p) (trackingFired p') fx"
proof -
  let ?p' = "fst (destroy p)"
  have f: "vastData ?p' = vastData p" "skipButton ?p' = skipButton p"
    "currentTime ?p' = currentTime p" "(videoElement ?p' = None) = (videoElement p = None)"
    "options ?p' = options p" "trackingFired ?p' = trackingFired p"
    by (simp_all add: destroy_def)
  have rd: "rendered ?p'" using r rendered_cong [OF f(1) f(4)] by simp
  have bc: "button_consistent ?p'" using b button_consistent_cong [OF f(1) f(2) f(3)] by simp
  have ni: "filter is_Invoke (snd (destroy p)) = []" by (simp add: destroy_def)
  have fo: "fired_once (trackingFired p) (trackingFired ?p') (snd (destroy p))"
    unfolding f(6) by (rule fired_once_refl) (simp add: destroy_def fired_count_def)
  show ?thesis
    using rd bc f ni fo by (cases "destroy p") simp
qed

lemma skip_invariant:
  assumes r: "rendered p" and b: "button_consistent p"
  shows "\<exists>p' fx. skip p = Inr (p', fx) \<and> rendered p' \<and> button_consistent p'
           \<and> vastData p' = vastData p \<and> options p' = options p
           \<and> trackingFired p' = trackingFired p
           \<and> filter is_Invoke fx = invoke (opt_onSkip (options p)) []
           \<and> fired_once (trackingFired p) (trackingFired p') fx"
proof -
  from r obtain vd where vd: "vastData p = Some vd"
    by (auto simp: rendered_def split: option.splits)
  from destroy_invariant [OF r b]
  obtain p' dfx where d: "destroy p = (p', dfx)" "rendered p'" "button_consistent p'"
    "vastData p' = vastData p" "options p' = options p" "trackingFired p' = trackingFired p"
    "filter is_Invoke dfx = []" "fired_once (trackingFired p) (trackingFired p') dfx"
    by auto
  have ni: "filter is_Invoke (tracking_effects vd ''skip'') = []"
    by (simp add: tracking_effects_def split: option.splits)
  have inv: "\<And>f. filter is_Invoke (invoke f []) = invoke f []"
    by (simp add: invoke_def split: option.splits)
  have s: "skip p = Inr (p', tracking_effects vd ''skip'' @ invoke (opt_onSkip (options p)) [] @ dfx)"
    by (simp add: skip_def fireTracking_rendered [OF vd] d(1))
  have fo1: "fired_once (trackingFired p) (trackingFired p)
               (tracking_effects vd ''skip'' @ invoke (opt_onSkip (options p)) [])"
    by (rule fired_once_refl) (simp add: fired_count_complete)
  have fo: "fired_once (trackingFired p) (trackingFired p')
              ((tracking_effects vd ''skip'' @ invoke (opt_onSkip (options p)) []) @ dfx)"
    by (rule fired_once_trans [OF fo1 d(8)])
  show ?thesis
    using d fo by (simp add: s ni inv)
qed

lemma step_invariant:
  assumes r: "rendered p" and b: "button_consistent p"
  shows "\<exists>p' fx. step p s = Inr (p', fx) \<and> rendered p' \<and> button_consistent p'
           \<and> vastData p' = vastData p \<and> options p' = options p
           \<and> fired_once (trackingFired p) (trackingFired p') fx
           \<and> (s = Ended \<longrightarrow>
                 filter is_Invoke fx
                   = invoke (opt_onComplete (options p)) [] @ invoke (opt_onReward (options p)) [])
           \<and> (s \<noteq> Ended \<longrightarrow>
                 filter is_Invoke fx = []
                 \<or> filter is_Invoke fx = invoke (opt_onSkip (options p)) [])"
proof -
  have ve: "videoElement p \<noteq> None"
    using r by (auto simp: rendered_def split: option.splits)
  have fo0: "fired_once (trackingFired p) (trackingFired p) []"
    by (simp add: fired_once_refl)
  show ?thesis
  proof (cases s)
    case Play
    then show ?thesis using onStart_invariant [OF r b] ve by auto
  next
    case (TimeUpdate t d)
    then show ?thesis using onTimeUpdate_invariant [OF r b, of t d] ve by auto
  next
    case Ended
    then show ?thesis using onComplete_invariant [OF r b] r b ve by auto
  next
    case VideoClick
    then show ?thesis using videoClick_invariant [OF r] r b fo0 by auto
  next
    case SkipButtonClick
    then show ?thesis
      using skip_invariant [OF r b] r b fo0
      by (auto simp: skipButtonClick_def split: option.splits)
  next
    case CallSkip
    then show ?thesis using skip_invariant [OF r b] by auto
  next
    case CallDestroy
    then show ?thesis using destroy_invariant [OF r b] by auto
  qed
qed

lemma run_invariant:
  assumes "rendered p" "button_consistent p"
  shows "\<exists>p' fx. run p sigs = Inr (p', fx) \<and> rendered p' \<and> button_consistent p'
           \<and> vastData p' = vastData p \<and> options p' = options p
           \<and> fired_once (trackingFired p) (trackingFired p') fx"
  using assms
proof (induction sigs arbitrary: p)
  case Nil
  then show ?case by (simp add: fired_once_refl)
next
  case (Cons s sigs)
  from step_invariant [OF Cons.prems, of s]
  obtain p1 fx1 where 1: "step p s = Inr (p1, fx1)" "rendered p1" "button_consistent p1"
    "vastData p1 = vastData p" "options p1 = options p"
    "fired_once (trackingFired p) (trackingFired p1) fx1" by auto
  from Cons.IH [OF 1(2,3)]
  obtain p2 fx2 where 2: "run p1 sigs = Inr (p2, fx2)" "rendered p2" "button_consistent p2"
    "vastData p2 = vastData p1" "options p2 = options p1"
    "fired_once (trackingFired p1) (trackingFired p2) fx2" by auto
  have "run p (s # sigs) = Inr (p2, fx1 @ fx2)" by (simp add: 1(1) 2(1))
  moreover have "fired_once (trackingFired p) (trackingFired p2) (fx1 @ fx2)"
    by (rule fired_once_trans [OF 1(6) 2(6)])
  ultimately show ?case using 1 2 by simp
qed


text \<open>
  In every run of a loaded and rendered player, each of \<open>start\<close>, \<open>firstQuartile\<close>,
  \<open>midpoint\<close> and \<open>thirdQuartile\<close> fires at most once, whatever signals arrive and in
  whatever order; and the run never throws.
\<close>

lemma guarded_events_fire_at_most_once:
  assumes "load (new_player c args) (Resolved doc) = (p, lfx)" "videoElement p \<noteq> None"
    and "e \<in> set guarded_events"
  shows "\<exists>p' fx. run p sigs = Inr (p', fx) \<and> fired_count e fx \<le> 1"
proof -
  from load_resolved [OF assms(1,2)] have "rendered p" "button_consistent p" by simp_all
  from run_invariant [OF this, of sigs] assms(3)
  show ?thesis by (auto simp: fired_once_def)
qed

section \<open>The skip control\<close>



section \<open>Lemmas about the rewarded ad\<close>























section \<open>The rewarded ad: reward and load error\<close>



end
